theory Spec2Isabelle
  imports Complex_Main
begin

section \<open>Data model (types.ts)\<close>

text \<open>
  A TypeScript \<open>number\<close> is an IEEE double. The model takes a finite double as the
  rational it denotes. Comparisons, \<open>Math.min\<close> and \<open>Math.max\<close> are exact on doubles.
  The product and the sum of the refund in \<open>handleCancelBooking\<close> are rounded to the
  nearest double (\<open>toDouble\<close> below); the differences in the checkout split and in
  \<open>handleBook\<close> are taken without rounding. \<open>NaN\<close> and the infinities are not values
  of the model.
\<close>

type_synonym number = rat

subsection \<open>Rounding to the nearest double\<close>

text \<open>
  IEEE 754 binary64, round to nearest, ties to even. A double in the binade of \<open>2 ^ e\<close>
  is a multiple of \<open>2 ^ (e - 52)\<close>; the smallest binade is that of \<open>2 ^ - 1022\<close>, which
  also holds the subnormal numbers, and the largest that of \<open>2 ^ 1023\<close>. A result of
  magnitude \<open>2 ^ 1024\<close> or more, for which the double is an infinity, is outside the
  model.
\<close>

definition roundEven :: "rat \<Rightarrow> int" where
  "roundEven y =
     (if y - of_int \<lfloor>y\<rfloor> < 1 / 2 then \<lfloor>y\<rfloor>
      else if 1 / 2 < y - of_int \<lfloor>y\<rfloor> then \<lfloor>y\<rfloor> + 1
      else if even \<lfloor>y\<rfloor> then \<lfloor>y\<rfloor> else \<lfloor>y\<rfloor> + 1)"

text \<open>
  The exponent \<open>e\<close> with \<open>2 ^ e \<le> a < 2 ^ (e + 1)\<close>, found by halving or doubling, and
  kept between \<open>- 1022\<close> and \<open>1023\<close> by the number of steps.
\<close>

fun binadeUp :: "nat \<Rightarrow> rat \<Rightarrow> int" where
  "binadeUp 0 a = 0"
| "binadeUp (Suc n) a = (if 2 \<le> a then binadeUp n (a / 2) + 1 else 0)"

fun binadeDown :: "nat \<Rightarrow> rat \<Rightarrow> int" where
  "binadeDown 0 a = 0"
| "binadeDown (Suc n) a = (if a < 1 then binadeDown n (a * 2) - 1 else 0)"

definition binade :: "rat \<Rightarrow> int" where
  "binade a = (if 1 \<le> a then binadeUp 1023 a else binadeDown 1022 a)"

definition toDouble :: "rat \<Rightarrow> number" where
  "toDouble x = of_int (roundEven (x / 2 powi (binade \<bar>x\<bar> - 52))) * 2 powi (binade \<bar>x\<bar> - 52)"

text \<open>The literal \<open>0.9\<close> of the source: the double nearest to nine tenths.\<close>

definition pointNine :: number where
  "pointNine = toDouble 0.9"

datatype VehicleCategory = LUXURY | ELECTRIC | SUV | STANDARD | MOTORCYCLE

datatype BookingStatus = PENDING | CONFIRMED | IN_PROGRESS | FINISHED | CANCELLED

datatype VerificationStatus = pending | verified | rejected

datatype Transmission = Automatica | Manual

datatype Fuel = Gasolina | Diesel | Electrico

record features =
  transmission :: Transmission
  fuel :: Fuel
  passengers :: number
  hasAC :: bool
  hasGPS :: bool
  hasBluetooth :: bool
  hasReverseCamera :: bool
  hasAndroidAuto :: bool
  hasSunroof :: bool
  hasBabySeat :: bool
  is4x4 :: bool

record discounts =
  weekly :: number
  biweekly :: number
  monthly :: number

record documents =
  ownershipCard :: string
  soat :: string

record gallery =
  front :: string
  back_g :: string
  sideRight :: string
  sideLeft :: string
  interiorDashboard :: string
  interiorSeats :: string

record verification =
  documents :: documents
  gallery :: gallery

text \<open>
  The field \<open>id\<close> of the three interfaces is written \<open>id_v\<close>, \<open>id_b\<close>, \<open>id_u\<close>, the
  fields \<open>make\<close> and \<open>back\<close> are written \<open>make_v\<close> and \<open>back_g\<close>
  (\<open>id\<close> is the identity function of HOL).
\<close>

record Vehicle =
  id_v :: string
  ownerId :: string
  make_v :: string
  model :: string
  year :: number
  category :: VehicleCategory
  pricePerDay :: number
  imageUrl :: string
  location :: string
  isAvailable :: bool
  verificationStatus :: VerificationStatus
  features :: features
  discounts :: "discounts option"
  verification :: "verification option"

record review =
  rating :: number
  comment :: string
  createdAt :: string

record Booking =
  id_b :: string
  vehicleId :: string
  renterId :: string
  startDate :: string
  endDate :: string
  totalPrice :: number
  status :: BookingStatus
  vehicleSnapshot :: Vehicle
  review :: "review option"

datatype Role = renter | owner

text \<open>
  The user held by \<open>App\<close>: the interface \<open>User\<close> extended with \<open>isVerified\<close>,
  \<open>email\<close> and \<open>phone\<close>; \<open>verificationDocs\<close> (of type \<open>any\<close>) is a list of named
  document references.
\<close>

record User =
  id_u :: string
  name :: string
  cedula :: string
  dob :: string
  walletBalance :: number
  role :: Role
  isVerified :: bool
  verificationDocs :: "(string \<times> string) list"
  email :: string
  phone :: string

section \<open>Application state and its handlers (component App)\<close>

text \<open>
  The four \<open>useState\<close> cells of \<open>App\<close> that the handlers read and write. Every handler
  builds new objects and new arrays (\<open>map\<close>, spread); no object is written in place, so
  the objects are modelled as values. A handler called from a control of the page is
  one step on the current state, since the control is that of the current rendering. A
  handler called from a timer is the handler of the rendering in which the timer was
  started: what it reads from its closure is modelled by \<open>handleBookOf\<close> below.
\<close>

record app_state =
  vehicles :: "Vehicle list"
  bookings :: "Booking list"
  user :: User
  userCredits :: number

text \<open>
  What the platform supplies to a handler: \<open>Date.now()\<close> in milliseconds and the
  rendering \<open>toISOString\<close> of a time stamp. A handler reads the clock once.
\<close>

record clock =
  now :: nat
  toISOString :: "nat \<Rightarrow> string"

text \<open>The decimal rendering of a number inside a template string.\<close>

definition digit :: "nat \<Rightarrow> char" where
  "digit d = ''0123456789'' ! d"

fun decimal :: "nat \<Rightarrow> string" where
  "decimal n = (if n < 10 then [digit n] else decimal (n div 10) @ [digit (n mod 10)])"

declare decimal.simps [simp del]

text \<open>\<open>s.split('T')[0]\<close>: the part of \<open>s\<close> before its first \<open>T\<close>.\<close>

definition beforeT :: "string \<Rightarrow> string" where
  "beforeT s = takeWhile (\<lambda>c. c \<noteq> CHR ''T'') s"



definition handleBook :: "Vehicle \<Rightarrow> number \<Rightarrow> clock \<Rightarrow> app_state \<Rightarrow> app_state" where
  "handleBook vehicle deduction clk s =
     (let newBooking =
        \<lparr> id_b = ''b'' @ decimal (now clk),
          vehicleId = id_v vehicle,
          renterId = id_u (user s),
          startDate = beforeT (toISOString clk (now clk)),
          endDate = beforeT (toISOString clk (now clk + 86400000)),
          totalPrice = pricePerDay vehicle,
          status = CONFIRMED,
          vehicleSnapshot = vehicle,
          review = None \<rparr>;
        s' = s\<lparr>bookings := bookings s @ [newBooking]\<rparr>
      in if deduction > 0
         then s'\<lparr>userCredits := max 0 (userCredits s' - deduction)\<rparr>
         else s')"

text \<open>
  \<open>handleBook\<close> is a closure of the rendering of \<open>App\<close> in which it was made: the
  \<open>bookings\<close> and the \<open>user\<close> it reads are those of that rendering, while
  \<open>setUserCredits(prev => ...)\<close> reads the balance of the moment. \<open>handleBookOf\<close> is
  the handler of a rendering with the given bookings and user, called in a later state;
  \<open>handleBook\<close> above is the handler of the current rendering.
\<close>

definition handleBookOf ::
    "Booking list \<Rightarrow> User \<Rightarrow> Vehicle \<Rightarrow> number \<Rightarrow> clock \<Rightarrow> app_state \<Rightarrow> app_state" where
  "handleBookOf heldBookings heldUser vehicle deduction clk s =
     (let newBooking =
        \<lparr> id_b = ''b'' @ decimal (now clk),
          vehicleId = id_v vehicle,
          renterId = id_u heldUser,
          startDate = beforeT (toISOString clk (now clk)),
          endDate = beforeT (toISOString clk (now clk + 86400000)),
          totalPrice = pricePerDay vehicle,
          status = CONFIRMED,
          vehicleSnapshot = vehicle,
          review = None \<rparr>;
        s' = s\<lparr>bookings := heldBookings @ [newBooking]\<rparr>
      in if deduction > 0
         then s'\<lparr>userCredits := max 0 (userCredits s' - deduction)\<rparr>
         else s')"

definition handleAddReview :: "string \<Rightarrow> number \<Rightarrow> string \<Rightarrow> clock \<Rightarrow> app_state \<Rightarrow> app_state" where
  "handleAddReview i r c clk s =
     s\<lparr>bookings := map (\<lambda>b. if id_b b = i
                               then b\<lparr>review := Some \<lparr>rating = r, comment = c,
                                                        createdAt = toISOString clk (now clk)\<rparr>\<rparr>
                               else b) (bookings s)\<rparr>"

definition handleUpdateStatus :: "string \<Rightarrow> BookingStatus \<Rightarrow> app_state \<Rightarrow> app_state" where
  "handleUpdateStatus i st s =
     s\<lparr>bookings := map (\<lambda>b. if id_b b = i then b\<lparr>status := st\<rparr> else b) (bookings s)\<rparr>"

text \<open>
  \<open>bookings.find\<close> returns the first booking with the identifier, or \<open>undefined\<close>.
  The refund is \<open>booking.totalPrice * 0.9\<close> and the new balance \<open>prev + refundAmount\<close>,
  a product and a sum of doubles.
\<close>

definition handleCancelBooking :: "string \<Rightarrow> app_state \<Rightarrow> app_state" where
  "handleCancelBooking i s =
     (let s' = (case find (\<lambda>b. id_b b = i) (bookings s) of
                  Some booking \<Rightarrow>
                    s\<lparr>userCredits :=
                        toDouble (userCredits s + toDouble (totalPrice booking * pointNine))\<rparr>
                | None \<Rightarrow> s)
      in handleUpdateStatus i CANCELLED s')"

definition handleAddVehicle :: "Vehicle \<Rightarrow> app_state \<Rightarrow> app_state" where
  "handleAddVehicle vehicle s = s\<lparr>vehicles := vehicles s @ [vehicle]\<rparr>"



text \<open>
  \<open>handleSubmitVehicle\<close> of \<open>MyVehiclesPage\<close>. The draft \<open>newCarData\<close> is a
  \<open>Partial<Vehicle>\<close> that the code casts to \<open>Vehicle\<close>; the model takes it at the type
  the cast asserts. An absent \<open>imageUrl\<close> or \<open>location\<close> is the empty string, which
  \<open>||\<close> treats as it treats \<open>undefined\<close>. The new vehicle goes to \<open>onAddVehicle\<close>,
  which is \<open>handleAddVehicle\<close>.
\<close>

definition defaultImageUrl :: string where
  "defaultImageUrl =
     ''https://images.unsplash.com/photo-1533473359331-0135ef1b58bf?auto=format&fit=crop&w=800&q=80''"

definition Bogota :: string where
  "Bogota = ''Bogot'' @ [CHR 0xC3, CHR 0xA1]"

definition submittedVehicle :: "Vehicle \<Rightarrow> clock \<Rightarrow> Vehicle" where
  "submittedVehicle newCarData clk =
     newCarData\<lparr> id_v := ''v'' @ decimal (now clk),
                  ownerId := ''current'',
                  isAvailable := True,
                  verificationStatus := verified,
                  imageUrl := (if imageUrl newCarData = [] then defaultImageUrl
                               else imageUrl newCarData),
                  location := (if location newCarData = [] then Bogota
                               else location newCarData) \<rparr>"

definition handleSubmitVehicle :: "Vehicle \<Rightarrow> clock \<Rightarrow> app_state \<Rightarrow> app_state" where
  "handleSubmitVehicle newCarData clk s = handleAddVehicle (submittedVehicle newCarData clk) s"

text \<open>
  The filter of \<open>HomePage\<close> (\<open>verifiedVehicles\<close>) and of \<open>SearchPage\<close>
  (\<open>searchableVehicles\<close>): the same predicate in both.
\<close>

definition visibleVehicles :: "Vehicle list \<Rightarrow> Vehicle list" where
  "visibleVehicles vs = filter (\<lambda>v. verificationStatus v = verified \<and> isAvailable v) vs"




section \<open>The reservations view (component ReservationsPage)\<close>





























section \<open>Image validation and the upload box\<close>

text \<open>
  A value that \<open>JSON.parse\<close> can return. The two object literals that
  \<open>validateImageWithGemini\<close> returns are values of this type as well. An object is the
  list of its own properties, each name once.
\<close>

datatype json =
    JNull
  | JBool bool
  | JNumber number
  | JString string
  | JArray "json list"
  | JObject "(string \<times> json) list"

text \<open>
  Reading a property: \<open>None\<close> is \<open>undefined\<close>. Reading a property of \<open>null\<close>
  throws a \<open>TypeError\<close>, which \<open>readsProperty\<close> tells apart.
\<close>

fun readsProperty :: "json \<Rightarrow> bool" where
  "readsProperty JNull = False"
| "readsProperty _ = True"

fun getProperty :: "json \<Rightarrow> string \<Rightarrow> json option" where
  "getProperty (JObject kvs) k = map_of kvs k"
| "getProperty _ k = None"

fun truthy :: "json option \<Rightarrow> bool" where
  "truthy None = False"
| "truthy (Some JNull) = False"
| "truthy (Some (JBool b)) = b"
| "truthy (Some (JNumber n)) = (n \<noteq> 0)"
| "truthy (Some (JString s)) = (s \<noteq> [])"
| "truthy (Some (JArray xs)) = True"
| "truthy (Some (JObject kvs)) = True"

definition validResult :: json where
  "validResult = JObject [(''isValid'', JBool True)]"

definition invalidResult :: "string \<Rightarrow> json" where
  "invalidResult reason = JObject [(''isValid'', JBool False), (''reason'', JString reason)]"

text \<open>
  \<open>base64Image.match(/^data:(.+);base64,(.+)$/)\<close>. Both groups are greedy and not
  empty, and \<open>.\<close> matches no line terminator, so the string is \<open>data:\<close>, a first
  group, the last \<open>;base64,\<close> that leaves both groups non-empty, and a second group,
  with no line terminator anywhere. Strings are byte strings here; the line
  terminators are line feed and carriage return.
\<close>

definition lineTerminator :: "char \<Rightarrow> bool" where
  "lineTerminator c = (c = CHR 0x0A \<or> c = CHR 0x0D)"

fun lastSplit :: "string \<Rightarrow> string \<Rightarrow> (string \<times> string) option" where
  "lastSplit acc [] = None"
| "lastSplit acc (c # cs) =
     (case lastSplit (acc @ [c]) cs of
        Some r \<Rightarrow> Some r
      | None \<Rightarrow>
          if acc \<noteq> [] \<and> take 8 (c # cs) = '';base64,'' \<and> drop 8 (c # cs) \<noteq> []
          then Some (acc, drop 8 (c # cs))
          else None)"

definition matchDataUrl :: "string \<Rightarrow> (string \<times> string) option" where
  "matchDataUrl s =
     (if take 5 s = ''data:'' \<and> \<not> list_ex lineTerminator (drop 5 s)
      then lastSplit [] (drop 5 s)
      else None)"

record gen_request =
  model_r :: string
  mimeType :: string
  data :: string
  text_r :: string
  responseMimeType :: string

text \<open>
  What the call of \<open>ai.models.generateContent\<close> and the reading of \<open>response.text\<close>
  can do: throw, or give a text, which may be \<open>undefined\<close>.
\<close>

datatype gen_outcome = CallThrows | Response "string option"

text \<open>
  The surroundings of \<open>validateImageWithGemini\<close>: the key \<open>process.env.API_KEY\<close>,
  whether the constructor of the client throws, the classifier, and \<open>JSON.parse\<close>
  (\<open>None\<close> when it throws a \<open>SyntaxError\<close>).
\<close>

record gemini_env =
  API_KEY :: "string option"
  constructorThrows :: bool
  generateContent :: "gen_request \<Rightarrow> gen_outcome"
  JSON_parse :: "string \<Rightarrow> json option"

definition quote :: string where
  "quote = [CHR 0x22]"

definition returnJson :: string where
  "returnJson =
     '' Return JSON: { '' @ quote @ ''isValid'' @ quote @ '': boolean, '' @ quote @ ''reason''
     @ quote @ '': string }''"

definition promptText :: "string \<Rightarrow> string" where
  "promptText type' =
     (if type' = ''vehicle''
      then ''Analyze this image. Is it a real vehicle (car, motorcycle, suv)?'' @ returnJson
      else if type' = ''document''
      then ''Analyze this image. Is it a legible document?'' @ returnJson
      else if type' = ''face''
      then ''Analyze this image. Is it a clear human face?'' @ returnJson
      else [])"

text \<open>The argument of \<open>generateContent\<close>.\<close>

definition classifyRequest :: "string \<Rightarrow> string \<Rightarrow> string \<Rightarrow> gen_request" where
  "classifyRequest mime dat type' =
     \<lparr> model_r = ''gemini-2.5-flash-image'', mimeType = mime, data = dat,
       text_r = promptText type', responseMimeType = ''application/json'' \<rparr>"

text \<open>
  The result of the function, and the requests it has sent to the classifier, in order.
\<close>

definition validateImageWithGemini ::
    "gemini_env \<Rightarrow> string \<Rightarrow> string \<Rightarrow> json \<times> gen_request list" where
  "validateImageWithGemini env base64Image type' =
     (if API_KEY env = None \<or> API_KEY env = Some [] then (validResult, [])
      else if constructorThrows env then (validResult, [])
      else case matchDataUrl base64Image of
        None \<Rightarrow> (invalidResult ''Invalid image format'', [])
      | Some (mime, dat) \<Rightarrow>
          (let request = classifyRequest mime dat type'
           in case generateContent env request of
                CallThrows \<Rightarrow> (validResult, [request])
              | Response None \<Rightarrow> (invalidResult ''No response from AI'', [request])
              | Response (Some txt) \<Rightarrow>
                  if txt = [] then (invalidResult ''No response from AI'', [request])
                  else (case JSON_parse env txt of
                          None \<Rightarrow> (validResult, [request])
                        | Some v \<Rightarrow> (v, [request]))))"

datatype upload_status = Idle | Uploading | Analyzing | Success | Error

record upload_box =
  status_u :: upload_status
  progress :: nat
  errorMsg :: "json option"

record File =
  size_f :: nat
  type_f :: string

datatype read_outcome = ReadRejects | ReadResolves string

record browser_env =
  fileToBase64 :: "File \<Rightarrow> read_outcome"
  createObjectURL :: "File \<Rightarrow> string"
  gemini :: gemini_env

datatype validation_type = ForVehicle | ForDocument | ForFace

fun typeTag :: "validation_type \<Rightarrow> string" where
  "typeTag ForVehicle = ''vehicle''"
| "typeTag ForDocument = ''document''"
| "typeTag ForFace = ''face''"

text \<open>
  What \<open>handleFileChange\<close> does, in order: the writes to the three state cells of the
  box, the requests to the classifier and the call of \<open>onImageSelect\<close>. The interval
  timer, which only writes \<open>progress\<close> while the file is read, is left out.
\<close>

datatype effect =
    SetErrorMsg "json option"
  | SetStatus upload_status
  | SetProgress nat
  | Classify gen_request
  | OnImageSelect string

definition errorAlProcesar :: "effect list" where
  "errorAlProcesar = [SetStatus Error, SetErrorMsg (Some (JString ''Error al procesar''))]"

definition imagenNoValida :: string where
  "imagenNoValida = ''Imagen no v'' @ [CHR 0xC3, CHR 0xA1] @ ''lida''"

definition afterValidation :: "browser_env \<Rightarrow> File \<Rightarrow> effect list" where
  "afterValidation env f = [SetStatus Success, OnImageSelect (createObjectURL env f)]"

definition handleFileChange ::
    "browser_env \<Rightarrow> validation_type option \<Rightarrow> File option \<Rightarrow> effect list" where
  "handleFileChange env validationType selected =
     (case selected of
        None \<Rightarrow> []
      | Some f \<Rightarrow>
          if size_f f > 5 * 1024 * 1024
          then [SetErrorMsg (Some (JString ''El archivo excede 5MB'')), SetStatus Error]
          else if type_f f \<notin> set [''image/jpeg'', ''image/png'', ''image/webp'']
          then [SetErrorMsg (Some (JString ''Solo formatos JPG o PNG'')), SetStatus Error]
          else [SetErrorMsg None, SetStatus Uploading, SetProgress 0]
               @ (case fileToBase64 env f of
                    ReadRejects \<Rightarrow> errorAlProcesar
                  | ReadResolves base64 \<Rightarrow>
                      [SetProgress 100, SetStatus Analyzing]
                      @ (case validationType of
                           None \<Rightarrow> afterValidation env f
                         | Some t \<Rightarrow>
                             (let (aiResult, requests) =
                                    validateImageWithGemini (gemini env) base64 (typeTag t)
                              in map Classify requests
                                 @ (if \<not> readsProperty aiResult then errorAlProcesar
                                    else if \<not> truthy (getProperty aiResult ''isValid'')
                                    then [SetStatus Error,
                                          SetErrorMsg
                                            (if truthy (getProperty aiResult ''reason'')
                                             then getProperty aiResult ''reason''
                                             else Some (JString imagenNoValida))]
                                    else afterValidation env f)))))"

fun apply_effect :: "effect \<Rightarrow> upload_box \<Rightarrow> upload_box" where
  "apply_effect (SetErrorMsg m) b = b\<lparr>errorMsg := m\<rparr>"
| "apply_effect (SetStatus st) b = b\<lparr>status_u := st\<rparr>"
| "apply_effect (SetProgress n) b = b\<lparr>progress := n\<rparr>"
| "apply_effect (Classify r) b = b"
| "apply_effect (OnImageSelect url) b = b"

definition after_effects :: "effect list \<Rightarrow> upload_box \<Rightarrow> upload_box" where
  "after_effects es b = fold apply_effect es b"

definition statuses :: "effect list \<Rightarrow> upload_status list" where
  "statuses es = concat (map (\<lambda>e. case e of SetStatus st \<Rightarrow> [st] | _ \<Rightarrow> []) es)"

definition classifications :: "effect list \<Rightarrow> gen_request list" where
  "classifications es = concat (map (\<lambda>e. case e of Classify r \<Rightarrow> [r] | _ \<Rightarrow> []) es)"

definition initialBox :: upload_box where
  "initialBox = \<lparr> status_u = Idle, progress = 0, errorMsg = None \<rparr>"

section \<open>Initial state (constants.ts and the initial values of App)\<close>

definition Medellin :: string where
  "Medellin = ''Medell'' @ [CHR 0xC3, CHR 0xAD] @ ''n''"

definition mockV1 :: Vehicle where
  "mockV1 =
     \<lparr> id_v = ''v1'', ownerId = ''o1'', make_v = ''Tesla'', model = ''Model 3'', year = 2023,
       category = ELECTRIC, pricePerDay = 450000,
       imageUrl = ''https://images.unsplash.com/photo-1536700503339-1e4b06520771?auto=format&fit=crop&w=800&q=80'',
       location = Bogota, isAvailable = True, verificationStatus = verified,
       features = \<lparr> transmission = Automatica, fuel = Electrico, passengers = 5,
                    hasAC = True, hasGPS = True, hasBluetooth = True, hasReverseCamera = True,
                    hasAndroidAuto = True, hasSunroof = True, hasBabySeat = True,
                    is4x4 = False \<rparr>,
       discounts = Some \<lparr> weekly = 10, biweekly = 15, monthly = 25 \<rparr>,
       verification = None \<rparr>"

definition mockV2 :: Vehicle where
  "mockV2 =
     \<lparr> id_v = ''v2'', ownerId = ''o2'', make_v = ''Toyota'', model = ''Fortuner'', year = 2022,
       category = SUV, pricePerDay = 380000,
       imageUrl = ''https://images.unsplash.com/photo-1519641471654-76ce0107ad1b?auto=format&fit=crop&w=800&q=80'',
       location = Medellin, isAvailable = True, verificationStatus = verified,
       features = \<lparr> transmission = Automatica, fuel = Gasolina, passengers = 7,
                    hasAC = True, hasGPS = True, hasBluetooth = True, hasReverseCamera = True,
                    hasAndroidAuto = True, hasSunroof = False, hasBabySeat = False,
                    is4x4 = True \<rparr>,
       discounts = Some \<lparr> weekly = 5, biweekly = 10, monthly = 20 \<rparr>,
       verification = None \<rparr>"

definition mockV3 :: Vehicle where
  "mockV3 =
     \<lparr> id_v = ''v3'', ownerId = ''o3'', make_v = ''BMW'', model = ''S1000RR'', year = 2021,
       category = MOTORCYCLE, pricePerDay = 200000,
       imageUrl = ''https://images.unsplash.com/photo-1558981403-c5f9899a28bc?auto=format&fit=crop&w=800&q=80'',
       location = ''Cali'', isAvailable = True, verificationStatus = verified,
       features = \<lparr> transmission = Manual, fuel = Gasolina, passengers = 2,
                    hasAC = False, hasGPS = False, hasBluetooth = False,
                    hasReverseCamera = False, hasAndroidAuto = False, hasSunroof = False,
                    hasBabySeat = False, is4x4 = False \<rparr>,
       discounts = None,
       verification = None \<rparr>"

definition mockV4 :: Vehicle where
  "mockV4 =
     \<lparr> id_v = ''v4'', ownerId = ''o1'', make_v = ''Mazda'', model = ''3'', year = 2020,
       category = STANDARD, pricePerDay = 180000,
       imageUrl = ''https://images.unsplash.com/photo-1549317661-bd32c8ce0db2?auto=format&fit=crop&w=800&q=80'',
       location = Bogota, isAvailable = True, verificationStatus = verified,
       features = \<lparr> transmission = Automatica, fuel = Gasolina, passengers = 5,
                    hasAC = True, hasGPS = True, hasBluetooth = True, hasReverseCamera = True,
                    hasAndroidAuto = True, hasSunroof = True, hasBabySeat = True,
                    is4x4 = False \<rparr>,
       discounts = Some \<lparr> weekly = 10, biweekly = 15, monthly = 30 \<rparr>,
       verification = None \<rparr>"

definition MOCK_VEHICLES :: "Vehicle list" where
  "MOCK_VEHICLES = [mockV1, mockV2, mockV3, mockV4]"

definition mockB1 :: Booking where
  "mockB1 =
     \<lparr> id_b = ''b1'', vehicleId = ''v2'', renterId = ''current'',
       startDate = ''2023-11-10'', endDate = ''2023-11-15'', totalPrice = 1900000,
       status = CONFIRMED, vehicleSnapshot = mockV2, review = None \<rparr>"

definition mockB2 :: Booking where
  "mockB2 =
     \<lparr> id_b = ''b2'', vehicleId = ''v4'', renterId = ''current'',
       startDate = ''2023-12-01'', endDate = ''2023-12-05'', totalPrice = 720000,
       status = PENDING, vehicleSnapshot = mockV4, review = None \<rparr>"

definition MOCK_BOOKINGS :: "Booking list" where
  "MOCK_BOOKINGS = [mockB1, mockB2]"

definition mockUser :: User where
  "mockUser =
     \<lparr> id_u = ''u1'',
       name = ''Juan P'' @ [CHR 0xC3, CHR 0xA9] @ ''rez'',
       cedula = ''1234567890'', dob = ''1990-01-01'', walletBalance = 2500000,
       role = renter, isVerified = False, verificationDocs = [],
       email = ''juan@example.com'', phone = ''3001234567'' \<rparr>"

definition initialState :: app_state where
  "initialState =
     \<lparr> vehicles = MOCK_VEHICLES, bookings = MOCK_BOOKINGS, user = mockUser,
       userCredits = 150000 \<rparr>"

text \<open>A clock reading used in the examples: 14 November 2023, 22:13:20 UTC.\<close>

definition exampleClock :: clock where
  "exampleClock =
     \<lparr> now = 1700000000000,
       toISOString = (\<lambda>t. if t = 1700000000000 then ''2023-11-14T22:13:20.000Z''
                           else ''2023-11-15T22:13:20.000Z'') \<rparr>"

text \<open>Surroundings of the upload box used in the examples.\<close>

definition exampleParse :: "string \<Rightarrow> json option" where
  "exampleParse txt =
     (if txt = ''null'' then Some JNull
      else if txt = ''{}'' then Some (JObject [])
      else None)"

definition exampleBrowser :: "string option \<Rightarrow> gen_outcome \<Rightarrow> browser_env" where
  "exampleBrowser key outcome =
     \<lparr> fileToBase64 = (\<lambda>f. ReadResolves ''data:image/jpeg;base64,/9j/4AAQ''),
       createObjectURL = (\<lambda>f. ''blob:1''),
       gemini = \<lparr> API_KEY = key, constructorThrows = False,
                  generateContent = (\<lambda>r. outcome), JSON_parse = exampleParse \<rparr> \<rparr>"

definition smallJpeg :: File where
  "smallJpeg = \<lparr> size_f = 200000, type_f = ''image/jpeg'' \<rparr>"

definition sixMegabyteJpeg :: File where
  "sixMegabyteJpeg = \<lparr> size_f = 6000000, type_f = ''image/jpeg'' \<rparr>"

section \<open>What holds of the application between two events\<close>




section \<open>Facts about rounding\<close>

lemma binadeUp_numeral:
  "binadeUp (numeral k) a = (if 2 \<le> a then binadeUp (pred_numeral k) (a / 2) + 1 else 0)"
  by (simp add: numeral_eq_Suc)

lemma binadeDown_numeral:
  "binadeDown (numeral k) a = (if a < 1 then binadeDown (pred_numeral k) (a * 2) - 1 else 0)"
  by (simp add: numeral_eq_Suc)

lemma floor_rat_numeral:
  "\<lfloor>(numeral a / numeral b :: rat)\<rfloor> = numeral a div numeral b"
  "\<lfloor>(- numeral a / numeral b :: rat)\<rfloor> = - numeral a div numeral b"
  "\<lfloor>(- (numeral a / numeral b) :: rat)\<rfloor> = - numeral a div numeral b"
  using floor_divide_of_int_eq [of "numeral a" "numeral b", where ?'a = rat]
    floor_divide_of_int_eq [of "- numeral a" "numeral b", where ?'a = rat]
  by simp_all

lemmas toDouble_eval =
  toDouble_def binade_def binadeUp_numeral binadeDown_numeral roundEven_def floor_rat_numeral

lemma pointNine_value: "pointNine = 8106479329266893 / 9007199254740992"
  by (simp add: pointNine_def toDouble_eval)

lemma roundEven_err: "\<bar>of_int (roundEven y) - y\<bar> \<le> 1 / 2"
proof -
  have "of_int \<lfloor>y\<rfloor> \<le> y" and "y < of_int \<lfloor>y\<rfloor> + 1" by linarith+
  then show ?thesis by (auto simp add: roundEven_def)
qed

lemma roundEven_of_int: "roundEven (of_int n) = n"
  by (simp add: roundEven_def)


lemma binadeUp_bounds:
  "1 \<le> a \<Longrightarrow> a < 2 ^ n \<Longrightarrow>
     0 \<le> binadeUp n a \<and> 2 powi binadeUp n a \<le> a \<and> a < 2 powi (binadeUp n a + 1)"
proof (induction n arbitrary: a)
  case 0
  then show ?case by simp
next
  case (Suc n)
  show ?case
  proof (cases "2 \<le> a")
    case True
    define E where "E = binadeUp n (a / 2)"
    from True Suc.prems have "1 \<le> a / 2" and "a / 2 < 2 ^ n" by simp_all
    from Suc.IH [OF this]
    have e: "0 \<le> E" and l: "2 powi E \<le> a / 2" and u: "a / 2 < 2 powi (E + 1)"
      by (simp_all add: E_def)
    have p: "(2::rat) powi (E + 1) = 2 powi E * 2"
      and p': "(2::rat) powi (E + 1 + 1) = 2 powi (E + 1) * 2"
      by (simp_all add: power_int_add)
    have r: "binadeUp (Suc n) a = E + 1" using True by (simp add: E_def)
    from e l u p p' show ?thesis by (simp only: r) linarith
  next
    case False
    with Suc.prems show ?thesis by simp
  qed
qed


lemma toDouble_zero: "toDouble 0 = 0"
  by (simp add: toDouble_def roundEven_def)

lemma toDouble_err:
  assumes "1 \<le> \<bar>x\<bar>" and "\<bar>x\<bar> < 2 ^ 1023"
  shows "\<bar>toDouble x - x\<bar> \<le> \<bar>x\<bar> / 2 ^ 53"
proof -
  define q :: rat where "q = 2 powi (binadeUp 1023 \<bar>x\<bar> - 52)"
  from binadeUp_bounds [OF assms] have l: "2 powi binadeUp 1023 \<bar>x\<bar> \<le> \<bar>x\<bar>" by simp
  have q: "0 < q" by (simp add: q_def)
  have qe: "q = 2 powi binadeUp 1023 \<bar>x\<bar> / 2 ^ 52" by (simp add: q_def power_int_diff)
  from assms(1) have t: "toDouble x = of_int (roundEven (x / q)) * q"
    by (simp add: toDouble_def binade_def q_def)
  have "toDouble x - x = (of_int (roundEven (x / q)) - x / q) * q"
    using q by (simp add: t field_simps)
  then have "\<bar>toDouble x - x\<bar> = \<bar>of_int (roundEven (x / q)) - x / q\<bar> * q"
    using q by (simp add: abs_mult)
  also have "\<dots> \<le> 1 / 2 * q"
    using roundEven_err [of "x / q"] q by (intro mult_right_mono) simp_all
  also have "\<dots> = 2 powi binadeUp 1023 \<bar>x\<bar> / 2 ^ 53" by (simp add: qe)
  also have "\<dots> \<le> \<bar>x\<bar> / 2 ^ 53" using l by (simp add: divide_right_mono)
  finally show ?thesis .
qed

lemma toDouble_of_int:
  assumes "\<bar>n\<bar> < 2 ^ 53"
  shows "toDouble (of_int n) = of_int n"
proof (cases "n = 0")
  case True
  then show ?thesis by (simp add: toDouble_zero)
next
  case False
  define a :: rat where "a = \<bar>of_int n\<bar>"
  define E where "E = binadeUp 1023 a"
  from False have "1 \<le> \<bar>n\<bar>" by simp
  then have "(of_int 1 :: rat) \<le> of_int \<bar>n\<bar>" by (simp only: of_int_le_iff)
  then have a1: "1 \<le> a" by (simp add: a_def)
  from assms have "(of_int \<bar>n\<bar> :: rat) < of_int (2 ^ 53)" by (simp only: of_int_less_iff)
  then have a53: "a < 2 ^ 53" by (simp add: a_def)
  then have a2: "a < 2 ^ 1023"
    by (rule less_le_trans) (simp add: power_increasing)
  from binadeUp_bounds [OF a1 a2] have e0: "0 \<le> E" and l: "2 powi E \<le> a" by (simp_all add: E_def)
  from l a53 have "(2::rat) powi E < 2 powi 53" by simp
  then have e53: "E < 53" by (rule power_int_le_imp_less_exp [rotated]) simp_all
  define k where "k = nat (52 - E)"
  from e53 have ke: "E - 52 = - int k" by (simp add: k_def)
  have q: "(2::rat) powi (E - 52) = 1 / 2 ^ k"
    by (simp add: ke power_int_minus field_simps)
  have "of_int n / (2 powi (E - 52)) = (of_int (n * 2 ^ k) :: rat)"
    by (simp add: q)
  then have "roundEven (of_int n / (2 powi (E - 52))) = n * 2 ^ k"
    by (simp only: roundEven_of_int)
  with a1 show ?thesis
    by (simp add: toDouble_def binade_def q a_def [symmetric] E_def [symmetric])
qed

lemma pointNine_err: "pointNine - 9 / 10 = 1 / (5 * 2 ^ 53)"
  by (simp add: pointNine_value)

lemma refund_err:
  assumes "2 \<le> p" and "p < 2 ^ 1023"
  shows "\<bar>toDouble (p * pointNine) - 0.9 * p\<bar> \<le> p / 2 ^ 52"
proof -
  have c: "9 / 10 \<le> pointNine" and c': "pointNine \<le> 1" by (simp_all add: pointNine_value)
  from assms c have x1: "1 \<le> \<bar>p * pointNine\<bar>"
    by (simp add: abs_mult pointNine_value)
  from assms c' have "p * pointNine \<le> p * 1" by (intro mult_left_mono) simp_all
  with assms have x2: "\<bar>p * pointNine\<bar> < 2 ^ 1023" by (simp add: abs_mult pointNine_value)
  from toDouble_err [OF x1 x2]
  have "\<bar>toDouble (p * pointNine) - p * pointNine\<bar> \<le> p * pointNine / 2 ^ 53"
    using assms by (simp add: abs_mult pointNine_value)
  also have "\<dots> \<le> p / 2 ^ 53" using assms by (simp add: pointNine_value)
  finally have 1: "\<bar>toDouble (p * pointNine) - p * pointNine\<bar> \<le> p / 2 ^ 53" .
  have "p * pointNine - 0.9 * p = p * (pointNine - 9 / 10)" by (simp add: field_simps)
  also have "\<dots> = p / (5 * 2 ^ 53)" by (simp only: pointNine_err) simp
  finally have 2: "\<bar>p * pointNine - 0.9 * p\<bar> \<le> p / 2 ^ 53"
    using assms by (simp add: field_simps)
  have "\<bar>toDouble (p * pointNine) - 0.9 * p\<bar>
          \<le> \<bar>toDouble (p * pointNine) - p * pointNine\<bar> + \<bar>p * pointNine - 0.9 * p\<bar>"
    by linarith
  also have "\<dots> \<le> p / 2 ^ 53 + p / 2 ^ 53" using 1 2 by linarith
  also have "\<dots> = p / 2 ^ 52" by simp
  finally show ?thesis .
qed

section \<open>Facts about the handlers\<close>

lemma find_distinct_id:
  "distinct (map id_b xs) \<Longrightarrow> k < length xs \<Longrightarrow> find (\<lambda>b. id_b b = id_b (xs ! k)) xs = Some (xs ! k)"
proof (induction xs arbitrary: k)
  case Nil
  then show ?case by simp
next
  case (Cons x xs)
  show ?case
  proof (cases k)
    case 0
    then show ?thesis by simp
  next
    case (Suc j)
    with Cons.prems have j: "j < length xs" and d: "distinct (map id_b xs)"
      and nx: "id_b x \<notin> id_b ` set xs" by auto
    from j nx have "id_b x \<noteq> id_b (xs ! j)" by (metis imageI nth_mem)
    with Cons.IH [OF d j] Suc show ?thesis by simp
  qed
qed


lemma bookings_handleBook:
  "bookings (handleBook vehicle d clk s) =
     bookings s @ [\<lparr> id_b = ''b'' @ decimal (now clk), vehicleId = id_v vehicle,
                      renterId = id_u (user s),
                      startDate = beforeT (toISOString clk (now clk)),
                      endDate = beforeT (toISOString clk (now clk + 86400000)),
                      totalPrice = pricePerDay vehicle, status = CONFIRMED,
                      vehicleSnapshot = vehicle, review = None \<rparr>]"
  by (simp add: handleBook_def Let_def)

lemma userCredits_handleBook:
  "userCredits (handleBook vehicle d clk s) =
     (if 0 < d then max 0 (userCredits s - d) else userCredits s)"
  by (simp add: handleBook_def Let_def)


lemma bookings_handleUpdateStatus:
  "bookings (handleUpdateStatus i st s) =
     map (\<lambda>b. if id_b b = i then b\<lparr>status := st\<rparr> else b) (bookings s)"
  by (simp add: handleUpdateStatus_def)


lemma bookings_handleCancelBooking:
  "bookings (handleCancelBooking i s) =
     map (\<lambda>b. if id_b b = i then b\<lparr>status := CANCELLED\<rparr> else b) (bookings s)"
  by (simp add: handleCancelBooking_def Let_def handleUpdateStatus_def split: option.split)

lemma userCredits_handleCancelBooking:
  "userCredits (handleCancelBooking i s) =
     (case find (\<lambda>b. id_b b = i) (bookings s) of
        Some booking \<Rightarrow> toDouble (userCredits s + toDouble (totalPrice booking * pointNine))
      | None \<Rightarrow> userCredits s)"
  by (simp add: handleCancelBooking_def Let_def handleUpdateStatus_def split: option.split)

lemma bookings_handleAddReview:
  "bookings (handleAddReview i r c clk s) =
     map (\<lambda>b. if id_b b = i
               then b\<lparr>review := Some \<lparr>rating = r, comment = c,
                                        createdAt = toISOString clk (now clk)\<rparr>\<rparr>
               else b) (bookings s)"
  by (simp add: handleAddReview_def)







lemma handleBookOf_current: "handleBookOf (bookings s) (user s) vehicle d clk s = handleBook vehicle d clk s"
  by (simp add: handleBookOf_def handleBook_def)




section \<open>Facts about the reservations view\<close>



lemma ids_handleUpdateStatus:
  "map id_b (bookings (handleUpdateStatus i st s)) = map id_b (bookings s)"
  by (simp add: bookings_handleUpdateStatus comp_def if_distrib cong: if_cong)

lemma ids_handleCancelBooking:
  "map id_b (bookings (handleCancelBooking i s)) = map id_b (bookings s)"
  by (simp add: bookings_handleCancelBooking comp_def if_distrib cong: if_cong)

lemma ids_handleAddReview:
  "map id_b (bookings (handleAddReview i r c clk s)) = map id_b (bookings s)"
  by (simp add: bookings_handleAddReview comp_def if_distrib cong: if_cong)





























section \<open>Facts about the upload box\<close>

lemma statuses_simps:
  "statuses [] = []"
  "statuses (SetStatus st # es) = st # statuses es"
  "statuses (SetErrorMsg m # es) = statuses es"
  "statuses (SetProgress n # es) = statuses es"
  "statuses (Classify r # es) = statuses es"
  "statuses (OnImageSelect url # es) = statuses es"
  "statuses (es @ es') = statuses es @ statuses es'"
  by (simp_all add: statuses_def)

lemma statuses_Classify: "statuses (map Classify rs) = []"
  by (induction rs) (simp_all add: statuses_def)

lemma classifications_simps:
  "classifications [] = []"
  "classifications (SetStatus st # es) = classifications es"
  "classifications (SetErrorMsg m # es) = classifications es"
  "classifications (SetProgress n # es) = classifications es"
  "classifications (Classify r # es) = r # classifications es"
  "classifications (OnImageSelect url # es) = classifications es"
  "classifications (es @ es') = classifications es @ classifications es'"
  by (simp_all add: classifications_def)

lemma after_effects_simps:
  "after_effects [] b = b"
  "after_effects (e # es) b = after_effects es (apply_effect e b)"
  "after_effects (es @ es') b = after_effects es' (after_effects es b)"
  by (simp_all add: after_effects_def)

lemma after_effects_Classify: "after_effects (map Classify rs) b = b"
  by (induction rs) (simp_all add: after_effects_simps)

lemma exampleMatch:
  "matchDataUrl ''data:image/jpeg;base64,/9j/4AAQ'' = Some (''image/jpeg'', ''/9j/4AAQ'')"
  by (simp add: matchDataUrl_def lineTerminator_def)

section \<open>Checkout split\<close>



section \<open>Cancellation\<close>

text \<open>
  C2, as stated, fails: the refund is a product of doubles. For a booking of total price
  99999 the balance grows by 3092345529355469 / 34359738368, which is not nine tenths of
  99999 but 1 / 171798691840 more.
\<close>

theorem cancel_refund_rounding_counterexample:
  "totalPrice (bookings (handleBook (mockV1\<lparr>pricePerDay := 99999\<rparr>) 0 exampleClock initialState) ! 2)
     = 99999
   \<and> userCredits (handleCancelBooking ''b1700000000000''
         (handleBook (mockV1\<lparr>pricePerDay := 99999\<rparr>) 0 exampleClock initialState))
       - userCredits (handleBook (mockV1\<lparr>pricePerDay := 99999\<rparr>) 0 exampleClock initialState)
     = 3092345529355469 / 34359738368
   \<and> (3092345529355469 / 34359738368 :: rat) - 0.9 * 99999 = 1 / 171798691840"
  by (simp add: userCredits_handleCancelBooking userCredits_handleBook bookings_handleBook
        initialState_def MOCK_BOOKINGS_def mockB1_def mockB2_def exampleClock_def
        decimal.simps digit_def pointNine_value toDouble_eval)

text \<open>
  C2, as amended. In a list of bookings with distinct identifiers, cancelling a booking
  of total price \<open>P\<close> leaves the booking with status Cancelled and takes the credits
  balance to the double nearest to the sum of the balance and the refund, the refund
  being the double nearest to the product of \<open>P\<close> and the double \<open>0.9\<close>. For a price
  from 2 up to \<open>2 ^ 1023\<close> the refund is within \<open>P / 2 ^ 52\<close> of nine tenths of
  \<open>P\<close>. For a total price of 1900000 and a balance that is a whole number, with a sum
  below \<open>2 ^ 53\<close>, the balance grows by exactly 1710000.
\<close>

theorem cancel_refund:
  assumes "distinct (map id_b (bookings s))" and "k < length (bookings s)"
  shows "status (bookings (handleCancelBooking (id_b (bookings s ! k)) s) ! k) = CANCELLED
       \<and> userCredits (handleCancelBooking (id_b (bookings s ! k)) s)
           = toDouble (userCredits s + toDouble (totalPrice (bookings s ! k) * pointNine))
       \<and> (2 \<le> totalPrice (bookings s ! k) \<and> totalPrice (bookings s ! k) < 2 ^ 1023 \<longrightarrow>
            \<bar>toDouble (totalPrice (bookings s ! k) * pointNine) - 0.9 * totalPrice (bookings s ! k)\<bar>
              \<le> totalPrice (bookings s ! k) / 2 ^ 52)
       \<and> (totalPrice (bookings s ! k) = 1900000 \<and> userCredits s \<in> \<int>
           \<and> \<bar>userCredits s + 1710000\<bar> < 2 ^ 53 \<longrightarrow>
            userCredits (handleCancelBooking (id_b (bookings s ! k)) s) = userCredits s + 1710000)"
proof -
  let ?P = "totalPrice (bookings s ! k)"
  let ?s' = "handleCancelBooking (id_b (bookings s ! k)) s"
  from assms have st: "status (bookings ?s' ! k) = CANCELLED"
    by (simp add: bookings_handleCancelBooking)
  from find_distinct_id [OF assms]
  have c: "userCredits ?s' = toDouble (userCredits s + toDouble (?P * pointNine))"
    by (simp add: userCredits_handleCancelBooking)
  have e: "2 \<le> ?P \<and> ?P < 2 ^ 1023 \<longrightarrow> \<bar>toDouble (?P * pointNine) - 0.9 * ?P\<bar> \<le> ?P / 2 ^ 52"
    using refund_err [of ?P] by blast
  have w: "?P = 1900000 \<and> userCredits s \<in> \<int> \<and> \<bar>userCredits s + 1710000\<bar> < 2 ^ 53 \<longrightarrow>
             userCredits ?s' = userCredits s + 1710000"
  proof (intro impI, elim conjE)
    assume p: "?P = 1900000" and z: "userCredits s \<in> \<int>"
      and b: "\<bar>userCredits s + 1710000\<bar> < 2 ^ 53"
    from z obtain n :: int where n: "userCredits s = of_int n" by (auto elim: Ints_cases)
    have r: "toDouble (1900000 * pointNine) = 1710000"
      by (simp add: pointNine_value toDouble_eval)
    have sum: "userCredits s + 1710000 = of_int (n + 1710000)" by (simp add: n)
    from b have "(of_int \<bar>n + 1710000\<bar> :: rat) < of_int (2 ^ 53)" by (simp add: sum)
    then have "\<bar>n + 1710000\<bar> < 2 ^ 53" by (simp only: of_int_less_iff)
    then have "toDouble (of_int (n + 1710000)) = of_int (n + 1710000)" by (rule toDouble_of_int)
    with c p r sum show "userCredits ?s' = userCredits s + 1710000" by simp
  qed
  from st c e w show ?thesis by blast
qed

theorem cancel_refund_witness:
  "distinct (map id_b (bookings initialState)) \<and> 0 < length (bookings initialState)
   \<and> totalPrice (bookings initialState ! 0) = 1900000
   \<and> userCredits initialState = 150000 \<and> userCredits initialState \<in> \<int>
   \<and> \<bar>userCredits initialState + 1710000\<bar> < 2 ^ 53
   \<and> userCredits (handleCancelBooking ''b1'' initialState) = 1860000
   \<and> status (bookings (handleCancelBooking ''b1'' initialState) ! 0) = CANCELLED
   \<and> \<bar>toDouble (1900000 * pointNine) - 0.9 * 1900000\<bar> \<le> 1900000 / 2 ^ 52"
proof -
  have d: "distinct (map id_b (bookings initialState))"
    by (simp add: initialState_def MOCK_BOOKINGS_def mockB1_def mockB2_def)
  have l: "0 < length (bookings initialState)"
    by (simp add: initialState_def MOCK_BOOKINGS_def)
  have i: "id_b (bookings initialState ! 0) = ''b1''"
    by (simp add: initialState_def MOCK_BOOKINGS_def mockB1_def)
  have p: "totalPrice (bookings initialState ! 0) = 1900000"
    by (simp add: initialState_def MOCK_BOOKINGS_def mockB1_def)
  have c: "userCredits initialState = 150000"
    by (simp add: initialState_def)
  have z: "userCredits initialState \<in> \<int>" by (simp add: c)
  have b: "\<bar>userCredits initialState + 1710000\<bar> < 2 ^ 53" by (simp add: c)
  from cancel_refund [OF d l] d l i p c z b show ?thesis by simp
qed

section \<open>Booking creation\<close>




section \<open>The credits balance\<close>




section \<open>The snapshot of the vehicle\<close>



section \<open>Publishing a vehicle\<close>

text \<open>
  C10. Whatever the draft holds, the wizard appends a vehicle that is verified and
  available, and the listing filter of the home and search pages keeps it: the visible
  vehicles after the submission are the visible vehicles before it followed by the new
  one.
\<close>

theorem published_vehicle_visible:
  "vehicles (handleSubmitVehicle newCarData clk s) = vehicles s @ [submittedVehicle newCarData clk]
   \<and> verificationStatus (submittedVehicle newCarData clk) = verified
   \<and> isAvailable (submittedVehicle newCarData clk)
   \<and> visibleVehicles (vehicles (handleSubmitVehicle newCarData clk s))
       = visibleVehicles (vehicles s) @ [submittedVehicle newCarData clk]"
  by (simp add: handleSubmitVehicle_def handleAddVehicle_def submittedVehicle_def
        visibleVehicles_def)

section \<open>Status transitions\<close>




section \<open>Reviews\<close>




section \<open>Image validation\<close>

text \<open>
  C5, as stated, fails for a response without text: the guard \<open>if (!text)\<close> returns
  \<open>{isValid: false, reason: 'No response from AI'}\<close>, and the upload box ends in the
  error state. A response that parses to a value of another shape, here \<open>null\<close>, is
  returned as it is, and the upload box ends in the error state as well.
\<close>

theorem empty_response_counterexample:
  "fst (validateImageWithGemini (gemini (exampleBrowser (Some ''key'') (Response (Some []))))
          ''data:image/jpeg;base64,/9j/4AAQ'' ''vehicle'')
     = JObject [(''isValid'', JBool False), (''reason'', JString ''No response from AI'')]
   \<and> status_u (after_effects (handleFileChange (exampleBrowser (Some ''key'') (Response (Some [])))
                  (Some ForVehicle) (Some smallJpeg)) initialBox) = Error
   \<and> fst (validateImageWithGemini (gemini (exampleBrowser (Some ''key'') (Response (Some ''null''))))
          ''data:image/jpeg;base64,/9j/4AAQ'' ''vehicle'') = JNull
   \<and> status_u (after_effects (handleFileChange (exampleBrowser (Some ''key'') (Response (Some ''null'')))
                  (Some ForVehicle) (Some smallJpeg)) initialBox) = Error"
  by (simp add: validateImageWithGemini_def exampleBrowser_def exampleMatch exampleParse_def
        invalidResult_def handleFileChange_def smallJpeg_def after_effects_simps
        after_effects_Classify errorAlProcesar_def initialBox_def)

text \<open>
  C5, as amended. The function returns \<open>{isValid: true}\<close> without a request when the
  key is absent or the client cannot be built, and after its one request when the call
  throws or answers a text that is not empty and that \<open>JSON.parse\<close> rejects. When the
  answer has no text or an empty one it returns \<open>{isValid: false, reason: 'No response
  from AI'}\<close>. Whenever the function returns \<open>{isValid: true}\<close> for an accepted file
  that was read, the upload box goes through uploading and analyzing to success, with
  no error message.
\<close>

theorem validation_fails_open:
  "(API_KEY env = None \<or> API_KEY env = Some [] \<or> constructorThrows env \<longrightarrow>
      validateImageWithGemini env img t = (validResult, []))
   \<and> (API_KEY env = Some key \<and> key \<noteq> [] \<and> \<not> constructorThrows env
       \<and> matchDataUrl img = Some (mime, dat)
       \<and> (generateContent env (classifyRequest mime dat t) = CallThrows
          \<or> generateContent env (classifyRequest mime dat t) = Response (Some answer)
             \<and> answer \<noteq> [] \<and> JSON_parse env answer = None) \<longrightarrow>
      validateImageWithGemini env img t = (validResult, [classifyRequest mime dat t]))
   \<and> (API_KEY env = Some key \<and> key \<noteq> [] \<and> \<not> constructorThrows env
       \<and> matchDataUrl img = Some (mime, dat)
       \<and> (generateContent env (classifyRequest mime dat t) = Response None
          \<or> generateContent env (classifyRequest mime dat t) = Response (Some [])) \<longrightarrow>
      validateImageWithGemini env img t
        = (invalidResult ''No response from AI'', [classifyRequest mime dat t]))
   \<and> (size_f f \<le> 5 * 1024 * 1024
       \<and> type_f f \<in> set [''image/jpeg'', ''image/png'', ''image/webp'']
       \<and> fileToBase64 benv f = ReadResolves img
       \<and> fst (validateImageWithGemini (gemini benv) img (typeTag vt)) = validResult \<longrightarrow>
      statuses (handleFileChange benv (Some vt) (Some f)) = [Uploading, Analyzing, Success]
      \<and> status_u (after_effects (handleFileChange benv (Some vt) (Some f)) box) = Success
      \<and> errorMsg (after_effects (handleFileChange benv (Some vt) (Some f)) box) = None)"
proof (intro conjI impI)
  assume "API_KEY env = None \<or> API_KEY env = Some [] \<or> constructorThrows env"
  then show "validateImageWithGemini env img t = (validResult, [])"
    by (auto simp add: validateImageWithGemini_def)
next
  assume "API_KEY env = Some key \<and> key \<noteq> [] \<and> \<not> constructorThrows env
       \<and> matchDataUrl img = Some (mime, dat)
       \<and> (generateContent env (classifyRequest mime dat t) = CallThrows
          \<or> generateContent env (classifyRequest mime dat t) = Response (Some answer)
             \<and> answer \<noteq> [] \<and> JSON_parse env answer = None)"
  then show "validateImageWithGemini env img t = (validResult, [classifyRequest mime dat t])"
    by (auto simp add: validateImageWithGemini_def Let_def)
next
  assume "API_KEY env = Some key \<and> key \<noteq> [] \<and> \<not> constructorThrows env
       \<and> matchDataUrl img = Some (mime, dat)
       \<and> (generateContent env (classifyRequest mime dat t) = Response None
          \<or> generateContent env (classifyRequest mime dat t) = Response (Some []))"
  then show "validateImageWithGemini env img t
        = (invalidResult ''No response from AI'', [classifyRequest mime dat t])"
    by (auto simp add: validateImageWithGemini_def Let_def)
next
  assume a: "size_f f \<le> 5 * 1024 * 1024
       \<and> type_f f \<in> set [''image/jpeg'', ''image/png'', ''image/webp'']
       \<and> fileToBase64 benv f = ReadResolves img
       \<and> fst (validateImageWithGemini (gemini benv) img (typeTag vt)) = validResult"
  obtain rs where v: "validateImageWithGemini (gemini benv) img (typeTag vt) = (validResult, rs)"
    using a by (cases "validateImageWithGemini (gemini benv) img (typeTag vt)") simp
  have h: "handleFileChange benv (Some vt) (Some f) =
          [SetErrorMsg None, SetStatus Uploading, SetProgress 0, SetProgress 100, SetStatus Analyzing]
          @ map Classify rs @ afterValidation benv f"
    using a v by (auto simp add: handleFileChange_def validResult_def)
  show "statuses (handleFileChange benv (Some vt) (Some f)) = [Uploading, Analyzing, Success]"
    by (simp add: h statuses_simps statuses_Classify afterValidation_def)
  show "status_u (after_effects (handleFileChange benv (Some vt) (Some f)) box) = Success"
    by (simp add: h after_effects_simps after_effects_Classify afterValidation_def)
  show "errorMsg (after_effects (handleFileChange benv (Some vt) (Some f)) box) = None"
    by (simp add: h after_effects_simps after_effects_Classify afterValidation_def)
qed

theorem validation_fails_open_witness:
  "API_KEY (gemini (exampleBrowser None CallThrows)) = None
   \<and> validateImageWithGemini (gemini (exampleBrowser None CallThrows))
        ''data:image/jpeg;base64,/9j/4AAQ'' ''vehicle'' = (validResult, [])
   \<and> matchDataUrl ''data:image/jpeg;base64,/9j/4AAQ'' = Some (''image/jpeg'', ''/9j/4AAQ'')
   \<and> validateImageWithGemini (gemini (exampleBrowser (Some ''key'') CallThrows))
        ''data:image/jpeg;base64,/9j/4AAQ'' ''vehicle''
       = (validResult, [classifyRequest ''image/jpeg'' ''/9j/4AAQ'' ''vehicle''])
   \<and> JSON_parse (gemini (exampleBrowser (Some ''key'') (Response (Some ''not json''))))
        ''not json'' = None
   \<and> validateImageWithGemini (gemini (exampleBrowser (Some ''key'') (Response (Some ''not json''))))
        ''data:image/jpeg;base64,/9j/4AAQ'' ''vehicle''
       = (validResult, [classifyRequest ''image/jpeg'' ''/9j/4AAQ'' ''vehicle''])
   \<and> validateImageWithGemini (gemini (exampleBrowser (Some ''key'') (Response None)))
        ''data:image/jpeg;base64,/9j/4AAQ'' ''vehicle''
       = (invalidResult ''No response from AI'',
          [classifyRequest ''image/jpeg'' ''/9j/4AAQ'' ''vehicle''])
   \<and> size_f smallJpeg \<le> 5 * 1024 * 1024
   \<and> statuses (handleFileChange (exampleBrowser (Some ''key'') CallThrows) (Some ForVehicle)
        (Some smallJpeg)) = [Uploading, Analyzing, Success]
   \<and> status_u (after_effects (handleFileChange (exampleBrowser (Some ''key'') CallThrows)
        (Some ForVehicle) (Some smallJpeg)) initialBox) = Success"
proof -
  let ?img = "''data:image/jpeg;base64,/9j/4AAQ''"
  let ?req = "classifyRequest ''image/jpeg'' ''/9j/4AAQ'' ''vehicle''"
  let ?throws = "exampleBrowser (Some ''key'') CallThrows"
  let ?garbled = "exampleBrowser (Some ''key'') (Response (Some ''not json''))"
  let ?silent = "exampleBrowser (Some ''key'') (Response None)"
  have k: "API_KEY (gemini (exampleBrowser None CallThrows)) = None"
    by (simp add: exampleBrowser_def)
  from validation_fails_open [where env = "gemini (exampleBrowser None CallThrows)"
      and img = ?img and t = "''vehicle''"] k
  have c1: "validateImageWithGemini (gemini (exampleBrowser None CallThrows)) ?img ''vehicle''
              = (validResult, [])"
    by blast
  have m: "matchDataUrl ?img = Some (''image/jpeg'', ''/9j/4AAQ'')"
    by (simp add: matchDataUrl_def lineTerminator_def)
  have h2: "API_KEY (gemini ?throws) = Some ''key'' \<and> ''key'' \<noteq> []
            \<and> \<not> constructorThrows (gemini ?throws)
            \<and> generateContent (gemini ?throws) ?req = CallThrows"
    by (simp add: exampleBrowser_def)
  from validation_fails_open [where env = "gemini ?throws" and img = ?img and t = "''vehicle''"
      and key = "''key''" and mime = "''image/jpeg''" and dat = "''/9j/4AAQ''"] m h2
  have c2: "validateImageWithGemini (gemini ?throws) ?img ''vehicle'' = (validResult, [?req])"
    by blast
  have p: "JSON_parse (gemini ?garbled) ''not json'' = None"
    by (simp add: exampleBrowser_def exampleParse_def)
  have h3: "API_KEY (gemini ?garbled) = Some ''key'' \<and> ''key'' \<noteq> []
            \<and> \<not> constructorThrows (gemini ?garbled)
            \<and> generateContent (gemini ?garbled) ?req = Response (Some ''not json'')
            \<and> ''not json'' \<noteq> []"
    by (simp add: exampleBrowser_def)
  from validation_fails_open [where env = "gemini ?garbled" and img = ?img and t = "''vehicle''"
      and key = "''key''" and mime = "''image/jpeg''" and dat = "''/9j/4AAQ''"
      and answer = "''not json''"] m h3 p
  have c3: "validateImageWithGemini (gemini ?garbled) ?img ''vehicle'' = (validResult, [?req])"
    by blast
  have h4: "API_KEY (gemini ?silent) = Some ''key'' \<and> ''key'' \<noteq> []
            \<and> \<not> constructorThrows (gemini ?silent)
            \<and> generateContent (gemini ?silent) ?req = Response None"
    by (simp add: exampleBrowser_def)
  from validation_fails_open [where env = "gemini ?silent" and img = ?img and t = "''vehicle''"
      and key = "''key''" and mime = "''image/jpeg''" and dat = "''/9j/4AAQ''"] m h4
  have c4: "validateImageWithGemini (gemini ?silent) ?img ''vehicle''
              = (invalidResult ''No response from AI'', [?req])"
    by blast
  have s: "size_f smallJpeg \<le> 5 * 1024 * 1024" by (simp add: smallJpeg_def)
  have h5: "type_f smallJpeg \<in> set [''image/jpeg'', ''image/png'', ''image/webp'']
            \<and> fileToBase64 ?throws smallJpeg = ReadResolves ?img"
    by (simp add: smallJpeg_def exampleBrowser_def)
  from c2 have v: "fst (validateImageWithGemini (gemini ?throws) ?img (typeTag ForVehicle))
                     = validResult"
    by simp
  from validation_fails_open [where f = smallJpeg and benv = ?throws and img = ?img
      and vt = ForVehicle and box = initialBox] s h5 v
  have c5: "statuses (handleFileChange ?throws (Some ForVehicle) (Some smallJpeg))
              = [Uploading, Analyzing, Success]
          \<and> status_u (after_effects (handleFileChange ?throws (Some ForVehicle) (Some smallJpeg))
               initialBox) = Success"
    by blast
  from k c1 m c2 p c3 c4 s c5 show ?thesis by (intro conjI) simp_all
qed

section \<open>Rejected files\<close>

text \<open>
  C6. For a file of more than 5 MiB, or of a type other than JPEG, PNG and WebP, the
  handler sets the status once, to error, sends no request to the classifier and leaves
  the progress as it is; for a file that is too large the message is the one about the
  size limit. A JPEG of 6 MB is such a file.
\<close>

theorem rejected_file:
  assumes "size_f f > 5 * 1024 * 1024
           \<or> type_f f \<notin> set [''image/jpeg'', ''image/png'', ''image/webp'']"
  shows "statuses (handleFileChange env vt (Some f)) = [Error]
       \<and> classifications (handleFileChange env vt (Some f)) = []
       \<and> status_u (after_effects (handleFileChange env vt (Some f)) box) = Error
       \<and> progress (after_effects (handleFileChange env vt (Some f)) box) = progress box
       \<and> (size_f f > 5 * 1024 * 1024 \<longrightarrow>
            errorMsg (after_effects (handleFileChange env vt (Some f)) box)
              = Some (JString ''El archivo excede 5MB''))"
  using assms
  by (auto simp add: handleFileChange_def statuses_simps classifications_simps
        after_effects_simps)

theorem rejected_file_witness:
  "size_f sixMegabyteJpeg > 5 * 1024 * 1024
   \<and> statuses (handleFileChange (exampleBrowser (Some ''key'') (Response (Some ''{}'')))
        (Some ForVehicle) (Some sixMegabyteJpeg)) = [Error]
   \<and> classifications (handleFileChange (exampleBrowser (Some ''key'') (Response (Some ''{}'')))
        (Some ForVehicle) (Some sixMegabyteJpeg)) = []
   \<and> errorMsg (after_effects (handleFileChange (exampleBrowser (Some ''key'') (Response (Some ''{}'')))
        (Some ForVehicle) (Some sixMegabyteJpeg)) initialBox)
       = Some (JString ''El archivo excede 5MB'')"
proof -
  have s: "size_f sixMegabyteJpeg > 5 * 1024 * 1024" by (simp add: sixMegabyteJpeg_def)
  from rejected_file [of sixMegabyteJpeg "exampleBrowser (Some ''key'') (Response (Some ''{}''))"
      "Some ForVehicle" initialBox] s
  show ?thesis by simp
qed

end
